theory Spec2Isabelle
  imports Main
begin

section \<open>Python strings\<close>

text \<open>
  A Python \<^verbatim>\<open>str\<close> is a sequence of Unicode code points and \<^verbatim>\<open>len\<close> counts code
  points, so a string is a list of code points (natural numbers) here.  \<open>py\<close> turns an
  ASCII literal into that representation.
\<close>

type_synonym pychar = nat
type_synonym pystr = "pychar list"

abbreviation py :: "string \<Rightarrow> pystr" where
  "py s \<equiv> map of_char s"

definition startswith :: "pystr \<Rightarrow> pystr \<Rightarrow> bool" where
  "startswith s p = (take (length p) s = p)"

definition endswith :: "pystr \<Rightarrow> pystr \<Rightarrow> bool" where
  "endswith s p = (length p \<le> length s \<and> drop (length s - length p) s = p)"

text \<open>\<^verbatim>\<open>sub in s\<close> on strings: \<open>sub\<close> occurs in \<open>s\<close> as a contiguous run.\<close>

fun contains :: "pystr \<Rightarrow> pystr \<Rightarrow> bool" where
  "contains [] sub = (sub = [])"
| "contains (c # cs) sub = (startswith (c # cs) sub \<or> contains cs sub)"

text \<open>
  \<^verbatim>\<open>str.isspace\<close> for one code point: the white-space table of CPython
  (\<^verbatim>\<open>_PyUnicode_IsWhitespace\<close>).
\<close>

definition isspace :: "pychar \<Rightarrow> bool" where
  "isspace c =
     ((9 \<le> c \<and> c \<le> 13) \<or> (28 \<le> c \<and> c \<le> 32) \<or> c = 133 \<or> c = 160 \<or> c = 5760
      \<or> (8192 \<le> c \<and> c \<le> 8202) \<or> c = 8232 \<or> c = 8233 \<or> c = 8239 \<or> c = 8287
      \<or> c = 12288)"

text \<open>\<^verbatim>\<open>s.rstrip()\<close>: drop the longest run of white space at the end.\<close>

definition rstrip :: "pystr \<Rightarrow> pystr" where
  "rstrip s = rev (dropWhile isspace (rev s))"

text \<open>\<^verbatim>\<open>s.replace(c, r)\<close> for a one-character pattern \<open>c\<close>.\<close>

definition replace_char :: "pychar \<Rightarrow> pystr \<Rightarrow> pystr \<Rightarrow> pystr" where
  "replace_char c r s = concat (map (\<lambda>x. if x = c then r else [x]) s)"

text \<open>
  \<^verbatim>\<open>html.escape(s)\<close> with its default \<^verbatim>\<open>quote=True\<close>, as the standard library
  writes it: five replacements in sequence, the ampersand first.
\<close>

definition html_escape :: "pystr \<Rightarrow> pystr" where
  "html_escape s =
     replace_char 39 (py ''&#x27;'')
       (replace_char 34 (py ''&quot;'')
         (replace_char 62 (py ''&gt;'')
           (replace_char 60 (py ''&lt;'')
             (replace_char 38 (py ''&amp;'') s))))"

text \<open>
  The reader's side of the escaping: the five character references that
  \<open>html_escape\<close> emits are turned back, left to right; any other ampersand stays.
  (\<^verbatim>\<open>html.unescape\<close> knows more references; on these five it does the same.)
\<close>

fun html_unescape :: "pystr \<Rightarrow> pystr" where
  "html_unescape [] = []"
| "html_unescape (c # cs) =
     (if c = 38 then
        (if startswith cs (py ''amp;'') then 38 # html_unescape (drop 4 cs)
         else if startswith cs (py ''lt;'') then 60 # html_unescape (drop 3 cs)
         else if startswith cs (py ''gt;'') then 62 # html_unescape (drop 3 cs)
         else if startswith cs (py ''quot;'') then 34 # html_unescape (drop 5 cs)
         else if startswith cs (py ''#x27;'') then 39 # html_unescape (drop 5 cs)
         else c # html_unescape cs)
      else c # html_unescape cs)"

section \<open>Paths\<close>

text \<open>
  \<^verbatim>\<open>os.path\<close> on a POSIX system, as far as \<^verbatim>\<open>os.path.relpath\<close> needs it.  The
  process's working directory (\<^verbatim>\<open>os.getcwd()\<close>) is the parameter \<open>cwd\<close>.
\<close>

text \<open>\<^verbatim>\<open>path.split('/')\<close>\<close>

fun split_sep :: "pystr \<Rightarrow> pystr list" where
  "split_sep [] = [[]]"
| "split_sep (c # cs) =
     (if c = 47 then [] # split_sep cs
      else (case split_sep cs of [] \<Rightarrow> [[c]] | w # ws \<Rightarrow> (c # w) # ws))"

text \<open>\<^verbatim>\<open>'/'.join(comps)\<close>\<close>

definition join_sep :: "pystr list \<Rightarrow> pystr" where
  "join_sep comps = (case comps of [] \<Rightarrow> [] | c # cs \<Rightarrow> c @ concat (map (\<lambda>x. 47 # x) cs))"

definition isabs :: "pystr \<Rightarrow> bool" where
  "isabs p = startswith p (py ''/'')"

text \<open>One step of \<^verbatim>\<open>posixpath.join(a, *p)\<close>: joining \<open>b\<close> onto the path so far.\<close>

definition path_join2 :: "pystr \<Rightarrow> pystr \<Rightarrow> pystr" where
  "path_join2 a b =
     (if startswith b (py ''/'') then b
      else if a = [] \<or> endswith a (py ''/'') then a @ b
      else a @ py ''/'' @ b)"

text \<open>The body of the loop over the components in \<^verbatim>\<open>posixpath.normpath\<close>.\<close>

definition norm_step :: "bool \<Rightarrow> pystr list \<Rightarrow> pystr \<Rightarrow> pystr list" where
  "norm_step initial_slashes new_comps cmp =
     (if cmp = [] \<or> cmp = py ''.'' then new_comps
      else if cmp \<noteq> py ''..'' \<or> (\<not> initial_slashes \<and> new_comps = [])
              \<or> (new_comps \<noteq> [] \<and> last new_comps = py ''..'')
      then new_comps @ [cmp]
      else if new_comps \<noteq> [] then butlast new_comps
      else new_comps)"

definition normpath :: "pystr \<Rightarrow> pystr" where
  "normpath path =
     (if path = [] then py ''.''
      else
        let initial_slashes =
              (if startswith path (py ''/'')
               then (if startswith path (py ''//'') \<and> \<not> startswith path (py ''///'')
                     then 2 else 1)
               else (0::nat));
            comps = foldl (norm_step (0 < initial_slashes)) [] (split_sep path);
            p = replicate initial_slashes 47 @ join_sep comps
        in if p = [] then py ''.'' else p)"

definition abspath :: "pystr \<Rightarrow> pystr \<Rightarrow> pystr" where
  "abspath cwd path = normpath (if isabs path then path else path_join2 cwd path)"

text \<open>\<^verbatim>\<open>os.path.commonprefix\<close> of two lists of components.\<close>

fun commonprefix :: "'a list \<Rightarrow> 'a list \<Rightarrow> 'a list" where
  "commonprefix (x # xs) (y # ys) = (if x = y then x # commonprefix xs ys else [])"
| "commonprefix _ _ = []"

section \<open>Call-stack frames and exceptions\<close>

text \<open>A \<^verbatim>\<open>traceback.FrameSummary\<close>.\<close>

record frame =
  filename :: pystr
  lineno :: nat
  name :: pystr
  line :: pystr

text \<open>
  An exception object, as far as the program looks at it: the name of its class
  (\<^verbatim>\<open>type(error).__name__\<close>), whether the class derives from \<^verbatim>\<open>Exception\<close> (the
  classes that derive from \<^verbatim>\<open>BaseException\<close> only are \<^verbatim>\<open>SystemExit\<close>,
  \<^verbatim>\<open>KeyboardInterrupt\<close>, \<^verbatim>\<open>GeneratorExit\<close>, \<^verbatim>\<open>asyncio.CancelledError\<close> and the
  script's own subclasses of these), what \<^verbatim>\<open>str(error)\<close> does (it calls the class's
  \<^verbatim>\<open>__str__\<close>, which returns a string or raises), and the frames of its traceback
  (\<^verbatim>\<open>traceback.extract_tb(error.__traceback__)\<close>, outermost call first).
\<close>

datatype exn =
  Exn (exn_type: pystr) (is_Exception: bool) (exn_str: "exn + pystr") (exn_tb: "frame list")

definition ValueError :: "pystr \<Rightarrow> exn" where
  "ValueError msg = Exn (py ''ValueError'') True (Inr msg) []"

definition IndexError :: "pystr \<Rightarrow> exn" where
  "IndexError msg = Exn (py ''IndexError'') True (Inr msg) []"

text \<open>\<^verbatim>\<open>posixpath.relpath(path, start)\<close>\<close>

definition relpath :: "pystr \<Rightarrow> pystr \<Rightarrow> pystr \<Rightarrow> exn + pystr" where
  "relpath cwd path start =
     (if path = [] then Inl (ValueError (py ''no path specified''))
      else
        let start_list = filter (\<lambda>x. x \<noteq> []) (split_sep (abspath cwd start));
            path_list = filter (\<lambda>x. x \<noteq> []) (split_sep (abspath cwd path));
            i = length (commonprefix start_list path_list);
            rel_list = replicate (length start_list - i) (py ''..'') @ drop i path_list
        in (case rel_list of
              [] \<Rightarrow> Inr (py ''.'')
            | a # p \<Rightarrow> Inr (foldl path_join2 a p)))"

section \<open>The traceback sanitizer\<close>

text \<open>
  The condition of the generator in \<^verbatim>\<open>format_exception_with_traceback\<close>:
  \<^verbatim>\<open>frame.filename == "<string>" or frame.filename.endswith("ast.py")\<close>.
\<close>

definition is_snippet_frame :: "frame \<Rightarrow> bool" where
  "is_snippet_frame f =
     (filename f = py ''<string>'' \<or> endswith (filename f) (py ''ast.py''))"

text \<open>
  \<^verbatim>\<open>(i for i, x in enumerate(xs) if P(x))\<close>, asked for its first element: the index
  of the first element that satisfies \<open>P\<close>, counted from \<open>i\<close>, or nothing.
\<close>

fun first_match :: "('a \<Rightarrow> bool) \<Rightarrow> nat \<Rightarrow> 'a list \<Rightarrow> nat option" where
  "first_match P i [] = None"
| "first_match P i (x # xs) = (if P x then Some i else first_match P (Suc i) xs)"

text \<open>\<^verbatim>\<open>next(..., -1)\<close>: the default \<open>-1\<close> when the generator is empty.\<close>

definition first_snip_idx :: "frame list \<Rightarrow> int" where
  "first_snip_idx tb =
     (case first_match is_snippet_frame 0 tb of None \<Rightarrow> - 1 | Some i \<Rightarrow> int i)"

text \<open>
  The slice \<^verbatim>\<open>xs[i:]\<close>: a negative start counts from the end, and the start is
  clipped to the list.
\<close>

definition slice_from :: "'a list \<Rightarrow> int \<Rightarrow> 'a list" where
  "slice_from xs i =
     (let n = int (length xs);
          start = (if i < 0 then max (n + i) 0 else min i n)
      in drop (nat start) xs)"

definition stripped_tb :: "frame list \<Rightarrow> frame list" where
  "stripped_tb tb = slice_from tb (first_snip_idx tb)"

text \<open>
  The loop of \<^verbatim>\<open>create_traceback_message\<close> over the frames:
  \<^verbatim>\<open>if base_directory in frame.filename: frame.filename = os.path.relpath(...)\<close>.
  It stops at the first frame on which \<^verbatim>\<open>relpath\<close> raises.
\<close>

fun relativize :: "pystr \<Rightarrow> frame list \<Rightarrow> exn + frame list" where
  "relativize base_directory [] = Inr []"
| "relativize base_directory (f # fs) =
     (if contains (filename f) base_directory then
        (case relpath base_directory (filename f) base_directory of
           Inl e \<Rightarrow> Inl e
         | Inr p \<Rightarrow>
             (case relativize base_directory fs of
                Inl e \<Rightarrow> Inl e
              | Inr fs' \<Rightarrow> Inr (f\<lparr>filename := p\<rparr> # fs')))
      else
        (case relativize base_directory fs of
           Inl e \<Rightarrow> Inl e
         | Inr fs' \<Rightarrow> Inr (f # fs')))"

text \<open>
  \<^verbatim>\<open>create_traceback_message(error, frames)\<close>.  \<^verbatim>\<open>traceback.format_list\<close> is the
  standard library's renderer of frames, whose layout differs between Python versions;
  it is the parameter \<open>format_list\<close>.
\<close>

definition create_traceback_message ::
  "pystr \<Rightarrow> (frame list \<Rightarrow> pystr list) \<Rightarrow> exn \<Rightarrow> frame list option \<Rightarrow> exn + pystr" where
  "create_traceback_message cwd format_list error frames_arg =
     (let frames = (case frames_arg of None \<Rightarrow> exn_tb error | Some fs \<Rightarrow> fs)
      in case relativize cwd frames of
           Inl e \<Rightarrow> Inl e
         | Inr frames' \<Rightarrow>
             let traceback_details = concat (format_list frames')
             in (case exn_str error of
                   Inl e \<Rightarrow> Inl e
                 | Inr error_details \<Rightarrow>
                     Inr (py ''Traceback (most recent call last):'' @ [10] @ traceback_details
                          @ exn_type error
                          @ (if error_details \<noteq> [] then py '': '' @ error_details
                             else error_details))))"

definition format_exception_with_traceback ::
  "pystr \<Rightarrow> (frame list \<Rightarrow> pystr list) \<Rightarrow> exn \<Rightarrow> exn + pystr" where
  "format_exception_with_traceback cwd format_list excp =
     create_traceback_message cwd format_list excp (Some (stripped_tb (exn_tb excp)))"

section \<open>The command handler\<close>

text \<open>
  How a call ends: it returns a value, an exception leaves it, or it never comes back
  (the script is awaited with no time limit).
\<close>

datatype 'a result = Returned 'a | Propagated exn | Hangs

text \<open>
  What the handler does to the outside, in order: the calls on the two messages
  (\<^verbatim>\<open>message.reply_text\<close>, \<^verbatim>\<open>sent_message.delete\<close>,
  \<^verbatim>\<open>message.reply_document(file, caption)\<close> with the file's name and content,
  \<^verbatim>\<open>sent_message.edit_text\<close>) and the run of the script by \<^verbatim>\<open>meval.meval\<close>
  (with whatever the script itself does through its bindings).  The calls of the
  transport are taken to return.
\<close>

datatype action =
    Reply_text pystr
  | Meval pystr
  | Delete_sent
  | Reply_document pystr pystr pystr
  | Edit_text pystr

text \<open>
  A file object that \<^verbatim>\<open>print\<close> can write to: the handler's \<^verbatim>\<open>output_buffer\<close>, or
  an object outside the handler, the standard output or a file of the script's own.
  The buffer is a local variable of \<^verbatim>\<open>handle_eval\<close>, and the \<^verbatim>\<open>print\<close> binding
  holds it in its closure (\<^verbatim>\<open>print.__closure__[0].cell_contents\<close>), so a script can
  pass it as \<^verbatim>\<open>file\<close> like any other object.
\<close>

datatype ext_file = Stdout | File nat

datatype pyfile = Buffer | External ext_file

text \<open>
  One call by the script of the \<^verbatim>\<open>print\<close> binding: the text that \<^verbatim>\<open>print\<close> makes
  of the arguments (with \<^verbatim>\<open>sep\<close> and \<^verbatim>\<open>end\<close>), and the \<^verbatim>\<open>file\<close> keyword argument
  when the call has one (\<^verbatim>\<open>file=None\<close> is written as the object that \<^verbatim>\<open>print\<close>
  takes for it, the current \<^verbatim>\<open>sys.stdout\<close>).
\<close>

record print_call =
  written :: pystr
  file_kw :: "pyfile option"

text \<open>
  How the awaited \<^verbatim>\<open>meval.meval\<close> ends: with the value of the script, with an
  exception, or not at all.  The value is any object, and the handler only ever applies
  \<^verbatim>\<open>str\<close> to it (inside \<^verbatim>\<open>print\<close>); so it is \<open>None\<close> for Python's \<^verbatim>\<open>None\<close>, and
  otherwise what \<^verbatim>\<open>str(value)\<close> does: it returns the rendering, or the object's
  \<^verbatim>\<open>__str__\<close> raises, or it never comes back.
\<close>

datatype ending = Return "pystr result option" | Raise exn | Never

text \<open>
  The run of a script, as the handler can observe it: its calls of the \<^verbatim>\<open>print\<close>
  binding, in order, and its ending.  \<^verbatim>\<open>meval\<close> is an external library; the handler's model
  takes it as a parameter of type \<open>pystr \<Rightarrow> script_run\<close>.
\<close>

record script_run =
  prints :: "print_call list"
  ending :: ending

record world =
  actions :: "action list"
  output_buffer :: pystr
  elsewhere :: "(ext_file \<times> pystr) list"

definition fresh :: world where
  "fresh = \<lparr>actions = [], output_buffer = [], elsewhere = []\<rparr>"

definition act :: "action \<Rightarrow> world \<Rightarrow> world" where
  "act a st = st\<lparr>actions := actions st @ [a]\<rparr>"

text \<open>The built-in \<^verbatim>\<open>print\<close> writing its text to a file.\<close>

definition print_to :: "pyfile \<Rightarrow> pystr \<Rightarrow> world \<Rightarrow> world" where
  "print_to file t st =
     (case file of
        Buffer \<Rightarrow> st\<lparr>output_buffer := output_buffer st @ t\<rparr>
      | External f \<Rightarrow> st\<lparr>elsewhere := elsewhere st @ [(f, t)]\<rparr>)"

text \<open>
  \<^verbatim>\<open>print_output(*args, **kwargs)\<close>:
  \<^verbatim>\<open>if "file" not in kwargs: kwargs["file"] = output_buffer\<close>, then \<^verbatim>\<open>print\<close>.
\<close>

definition print_output :: "world \<Rightarrow> print_call \<Rightarrow> world" where
  "print_output st c =
     (let file = (case file_kw c of None \<Rightarrow> Buffer | Some f \<Rightarrow> f)
      in print_to file (written c) st)"

definition error_prefix :: pystr where
  "error_prefix = py ''<b>Error while executing snippet:</b>'' @ [10, 10]"

text \<open>
  \<^verbatim>\<open>execute_code(command_args, execution_environment)\<close>.  Of the environment only the
  \<^verbatim>\<open>print\<close> binding matters here: the script's calls of it reach the world through
  \<open>print_output\<close>.  \<^verbatim>\<open>except Exception\<close> takes the exceptions whose class derives
  from \<^verbatim>\<open>Exception\<close>; an exception raised inside the handler leaves the function.
\<close>

definition execute_code ::
  "pystr \<Rightarrow> (frame list \<Rightarrow> pystr list) \<Rightarrow> (pystr \<Rightarrow> script_run) \<Rightarrow> pystr \<Rightarrow> world
     \<Rightarrow> world \<times> (pystr \<times> pystr result option) result" where
  "execute_code cwd format_list meval command_args st =
     (let run = meval command_args;
          st' = foldl print_output (act (Meval command_args) st) (prints run)
      in (st',
          case ending run of
            Return v \<Rightarrow> Returned ([], v)
          | Raise exception \<Rightarrow>
              (if is_Exception exception then
                 (case format_exception_with_traceback cwd format_list exception of
                    Inl e \<Rightarrow> Propagated e
                  | Inr formatted_traceback \<Rightarrow>
                      Returned (error_prefix, Some (Returned formatted_traceback)))
               else Propagated exception)
          | Never \<Rightarrow> Hangs))"

text \<open>
  \<^verbatim>\<open>str.encode\<close> (UTF-8) raises on a lone surrogate.  The error's message, which names
  the character and its position, is abridged to its reason.
\<close>

definition encodable :: "pystr \<Rightarrow> bool" where
  "encodable s = list_all (\<lambda>c. c < 55296 \<or> 57343 < c) s"

definition UnicodeEncodeError :: exn where
  "UnicodeEncodeError = Exn (py ''UnicodeEncodeError'') True (Inr (py ''surrogates not allowed'')) []"

text \<open>The text of the inline reply, built by the four assignments to \<^verbatim>\<open>result\<close>.\<close>

definition render :: "pystr \<Rightarrow> pystr \<Rightarrow> pystr \<Rightarrow> pystr" where
  "render prefix command_args output =
     prefix @ py ''<b>Input:</b>'' @ [10]
     @ py ''<pre><code class='' @ [39] @ py ''language-python'' @ [39] @ py ''>''
       @ html_escape command_args @ py ''</code></pre>'' @ [10]
     @ py ''<b>Output:</b>'' @ [10]
     @ py ''<pre><code class='' @ [39] @ py ''language-python'' @ [39] @ py ''>''
       @ html_escape output @ py ''</code></pre>'' @ [10]"

definition caption :: pystr where
  "caption = py ''Output is too large to be sent as a text message.''"

text \<open>
  \<^verbatim>\<open>handle_response(sent_message, message, prefix, command_args, output)\<close>.  The
  parameter \<open>file_id\<close> is the random part of the attachment's name,
  \<^verbatim>\<open>str(uuid.uuid4()).split("-")[0].upper()\<close>; the attachment's content is the UTF-8
  encoding of \<open>output\<close>, written here as the text it encodes.
\<close>

definition handle_response ::
  "pystr \<Rightarrow> pystr \<Rightarrow> pystr \<Rightarrow> pystr \<Rightarrow> world \<Rightarrow> world \<times> unit result" where
  "handle_response file_id prefix command_args output st =
     (if length output > 4096 then
        (if encodable output then
           (act (Reply_document (file_id @ py ''.TXT'') output caption) (act Delete_sent st),
            Returned ())
         else (st, Propagated UnicodeEncodeError))
      else (act (Edit_text (render prefix command_args output)) st, Returned ()))"

text \<open>
  \<^verbatim>\<open>message.text.split(None, 1)[1]\<close>: the text after the first word and the white
  space that follows it, or \<^verbatim>\<open>IndexError\<close> when there is none.
\<close>

definition command_of :: "pystr \<Rightarrow> exn + pystr" where
  "command_of text =
     (let rest = dropWhile isspace (dropWhile (\<lambda>c. \<not> isspace c) (dropWhile isspace text))
      in if rest = [] then Inl (IndexError (py ''list index out of range'')) else Inr rest)"

definition usage :: pystr where
  "usage = py ''To execute Python code, please include the code you wish to run. Use the command /run followed by your code.''"

definition placeholder :: pystr where
  "placeholder = py ''<i>Executing your code...</i>''"

text \<open>
  \<^verbatim>\<open>if execution_result is not None: print(execution_result, file=output_buffer)\<close>.
  \<^verbatim>\<open>print\<close> applies \<^verbatim>\<open>str\<close> to the object before it writes anything, and writes
  the rendering and a newline.  This statement is outside the \<^verbatim>\<open>try\<close> of
  \<^verbatim>\<open>execute_code\<close>: what \<^verbatim>\<open>str\<close> raises leaves the handler.
\<close>

definition print_result :: "pystr result option \<Rightarrow> world \<Rightarrow> world \<times> unit result" where
  "print_result execution_result st =
     (case execution_result of
        None \<Rightarrow> (st, Returned ())
      | Some (Returned v) \<Rightarrow> (print_to Buffer (v @ [10]) st, Returned ())
      | Some (Propagated e) \<Rightarrow> (st, Propagated e)
      | Some Hangs \<Rightarrow> (st, Hangs))"

text \<open>
  \<^verbatim>\<open>handle_eval(update, context)\<close>: \<open>args\<close> is \<^verbatim>\<open>context.args\<close>, \<open>text\<close> is
  \<^verbatim>\<open>message.text\<close>.  The buffer is created empty for the request.
\<close>

definition handle_eval ::
  "pystr \<Rightarrow> (frame list \<Rightarrow> pystr list) \<Rightarrow> pystr \<Rightarrow> (pystr \<Rightarrow> script_run)
     \<Rightarrow> pystr list \<Rightarrow> pystr \<Rightarrow> world \<Rightarrow> world \<times> unit result" where
  "handle_eval cwd format_list file_id meval args text st =
     (if length args < 1 then (act (Reply_text usage) st, Returned ())
      else
        (case command_of text of
           Inl e \<Rightarrow> (st, Propagated e)
         | Inr command \<Rightarrow>
             (case execute_code cwd format_list meval command
                     ((act (Reply_text placeholder) st)\<lparr>output_buffer := []\<rparr>) of
                (st1, Hangs) \<Rightarrow> (st1, Hangs)
              | (st1, Propagated e) \<Rightarrow> (st1, Propagated e)
              | (st1, Returned (prefix, execution_result)) \<Rightarrow>
                  (case print_result execution_result st1 of
                     (st2, Hangs) \<Rightarrow> (st2, Hangs)
                   | (st2, Propagated e) \<Rightarrow> (st2, Propagated e)
                   | (st2, Returned u) \<Rightarrow>
                       (let output_text = rstrip (output_buffer st2)
                        in handle_response file_id prefix command output_text st2)))))"

text \<open>
  The spec's words for a frame of the working directory: the file's path \<^emph>\<open>lies under\<close>
  the directory, that is, it is the directory's path followed by a separator and more.
\<close>

definition lies_under :: "pystr \<Rightarrow> pystr \<Rightarrow> bool" where
  "lies_under path dir = (startswith path (dir @ py ''/'') \<and> length (dir @ py ''/'') < length path)"

text \<open>Frames for the examples: the handler's own, the evaluation library's, the script's.\<close>

definition frame_execute_code :: frame where
  "frame_execute_code =
     \<lparr>filename = py ''/srv/bot/main.py'', lineno = 103, name = py ''execute_code'',
      line = py ''return \"\", await meval.meval(command_args, globals(), **execution_environment)''\<rparr>"

definition frame_meval :: frame where
  "frame_meval =
     \<lparr>filename = py ''/srv/bot-env/lib/meval/__init__.py'', lineno = 94, name = py ''meval'',
      line = py ''comp = compile(mod, \"<string>\", \"exec\")''\<rparr>"

definition frame_snippet :: frame where
  "frame_snippet = \<lparr>filename = py ''<string>'', lineno = 1, name = py ''tmp'', line = []\<rparr>"

text \<open>
  For the examples: a renderer of frames with one line for each frame, exceptions as
  scripts raise them, and \<open>script ps e\<close>, an interpreter under which every script
  makes the calls \<open>ps\<close> of \<^verbatim>\<open>print\<close> and ends as \<open>e\<close>.
\<close>

definition frame_helper :: frame where
  "frame_helper =
     \<lparr>filename = py ''/srv/bot/helpers.py'', lineno = 7, name = py ''check'',
      line = py ''raise ValueError(\"bad\")''\<rparr>"

definition sample_format_list :: "frame list \<Rightarrow> pystr list" where
  "sample_format_list fs =
     map (\<lambda>f. py ''  File '' @ filename f @ py '', in '' @ name f @ [10]) fs"

definition snippet_tb :: "frame list" where
  "snippet_tb = [frame_execute_code, frame_meval, frame_snippet]"

definition zero_division :: exn where
  "zero_division = Exn (py ''ZeroDivisionError'') True (Inr (py ''division by zero'')) snippet_tb"

definition system_exit :: exn where
  "system_exit = Exn (py ''SystemExit'') False (Inr []) snippet_tb"

definition keyboard_interrupt :: exn where
  "keyboard_interrupt = Exn (py ''KeyboardInterrupt'') False (Inr []) snippet_tb"

definition helper_error :: exn where
  "helper_error =
     Exn (py ''ValueError'') True (Inr (py ''bad''))
       [frame_execute_code, frame_meval, frame_snippet, frame_helper]"

definition unprintable :: exn where
  "unprintable = Exn (py ''TypeError'') True (Inr (py ''__str__ returned non-string'')) []"

definition script :: "print_call list \<Rightarrow> ending \<Rightarrow> pystr \<Rightarrow> script_run" where
  "script ps e command_args = \<lparr>prints = ps, ending = e\<rparr>"



definition prints_a_returns_5 :: "pystr \<Rightarrow> script_run" where
  "prints_a_returns_5 =
     script [\<lparr>written = py ''a'', file_kw = None\<rparr>] (Return (Some (Returned (py ''5''))))"

text \<open>What \<open>html_escape\<close> does to one character, for the proofs.\<close>

definition escape_char :: "pychar \<Rightarrow> pystr" where
  "escape_char c =
     (if c = 38 then py ''&amp;'' else if c = 60 then py ''&lt;''
      else if c = 62 then py ''&gt;'' else if c = 34 then py ''&quot;''
      else if c = 39 then py ''&#x27;'' else [c])"

section \<open>Markup escaping\<close>

lemma replace_char_append:
  "replace_char c r (xs @ ys) = replace_char c r xs @ replace_char c r ys"
  by (simp add: replace_char_def)

lemma replace_char_concat_map:
  "replace_char c r (concat (map f s)) = concat (map (\<lambda>x. replace_char c r (f x)) s)"
  by (induction s) (simp_all add: replace_char_append, simp add: replace_char_def)

lemma replace_char_as_concat: "replace_char c r s = concat (map (\<lambda>x. if x = c then r else [x]) s)"
  by (simp add: replace_char_def)

lemma html_escape_charwise: "html_escape s = concat (map escape_char s)"
proof -
  have pointwise: "replace_char 39 (py ''&#x27;'')
       (replace_char 34 (py ''&quot;'')
         (replace_char 62 (py ''&gt;'')
           (replace_char 60 (py ''&lt;'')
             (if x = 38 then py ''&amp;'' else [x])))) = escape_char x" for x
    by (simp add: replace_char_def escape_char_def)
  have "html_escape s = concat (map (\<lambda>x. replace_char 39 (py ''&#x27;'')
       (replace_char 34 (py ''&quot;'')
         (replace_char 62 (py ''&gt;'')
           (replace_char 60 (py ''&lt;'')
             (if x = 38 then py ''&amp;'' else [x]))))) s)"
    by (simp only: html_escape_def replace_char_as_concat [of 38] replace_char_concat_map)
  then show ?thesis
    by (simp only: pointwise)
qed

lemma html_unescape_escape_char:
  "html_unescape (escape_char c @ rest) = c # html_unescape rest"
  by (simp add: escape_char_def startswith_def)

text \<open>
  C6: the markup escaping applied to the script text and to the output text before
  they are embedded in the inline reply is reversible: unescaping the escaped text gives
  back the original string, character for character, for every string.
\<close>

theorem html_escape_reversible: "html_unescape (html_escape s) = s"
  unfolding html_escape_charwise
  by (induction s) (simp_all add: html_unescape_escape_char)

section \<open>Which frames the sanitizer keeps\<close>

lemma first_match_takeWhile:
  "first_match P k xs =
     (if list_ex P xs then Some (k + length (takeWhile (\<lambda>x. \<not> P x) xs)) else None)"
  by (induction xs arbitrary: k) simp_all

lemma slice_from_nat: "i \<le> length xs \<Longrightarrow> slice_from xs (int i) = drop i xs"
  by (simp add: slice_from_def Let_def min_def)

lemma stripped_tb_match:
  "list_ex is_snippet_frame tb \<Longrightarrow>
     stripped_tb tb = dropWhile (\<lambda>f. \<not> is_snippet_frame f) tb"
  by (simp add: stripped_tb_def first_snip_idx_def first_match_takeWhile slice_from_nat
      length_takeWhile_le dropWhile_eq_drop)

text \<open>
  Without a snippet frame the index is \<open>-1\<close>, and the slice from \<open>-1\<close> is the last
  frame alone (nothing, for an empty traceback).
\<close>

lemma stripped_tb_no_match:
  "\<not> list_ex is_snippet_frame tb \<Longrightarrow> stripped_tb tb = drop (length tb - 1) tb"
  by (cases tb)
     (simp_all add: stripped_tb_def first_snip_idx_def first_match_takeWhile slice_from_def)

lemma frames_eval:
  "is_snippet_frame frame_snippet"
  "\<not> is_snippet_frame frame_meval"
  "\<not> is_snippet_frame frame_execute_code"
  by (simp_all add: is_snippet_frame_def frame_snippet_def frame_meval_def
      frame_execute_code_def endswith_def)

lemma relativize_fields:
  "relativize cwd fs = Inr fs' \<Longrightarrow>
     length fs' = length fs \<and> map lineno fs' = map lineno fs
     \<and> map name fs' = map name fs \<and> map line fs' = map line fs"
proof (induction fs arbitrary: fs')
  case Nil
  then show ?case by simp
next
  case (Cons f fs)
  then show ?case
    by (auto split: if_splits sum.splits)
qed

text \<open>
  C4: when the traceback of an exception has a frame whose file name is \<^verbatim>\<open><string>\<close>
  or ends with \<^verbatim>\<open>ast.py\<close>, the sanitizer keeps the first such frame and every frame
  after it, and drops exactly the frames before it: the traceback is the dropped frames,
  none of which is such a frame, followed by the kept ones, the first of which is one.
  The sanitized traceback is made of the kept frames and of nothing else of the
  traceback: it is the heading, the rendering of the kept frames (with their file names
  rewritten relative to the working directory, and as many of them, with the same line
  numbers, function names and source lines), and the exception's class name and
  message.
\<close>

theorem snippet_frame_boundary:
  assumes "list_ex is_snippet_frame (exn_tb e)"
  shows "stripped_tb (exn_tb e) = dropWhile (\<lambda>f. \<not> is_snippet_frame f) (exn_tb e)
       \<and> exn_tb e = takeWhile (\<lambda>f. \<not> is_snippet_frame f) (exn_tb e) @ stripped_tb (exn_tb e)
       \<and> list_all (\<lambda>f. \<not> is_snippet_frame f)
           (takeWhile (\<lambda>f. \<not> is_snippet_frame f) (exn_tb e))
       \<and> stripped_tb (exn_tb e) \<noteq> []
       \<and> is_snippet_frame (hd (stripped_tb (exn_tb e)))
       \<and> format_exception_with_traceback cwd format_list e =
           (case relativize cwd (dropWhile (\<lambda>f. \<not> is_snippet_frame f) (exn_tb e)) of
              Inl x \<Rightarrow> Inl x
            | Inr kept \<Rightarrow>
                (case exn_str e of
                   Inl x \<Rightarrow> Inl x
                 | Inr msg \<Rightarrow>
                     Inr (py ''Traceback (most recent call last):'' @ [10]
                          @ concat (format_list kept) @ exn_type e
                          @ (if msg \<noteq> [] then py '': '' @ msg else msg))))
       \<and> (\<forall>kept. relativize cwd (dropWhile (\<lambda>f. \<not> is_snippet_frame f) (exn_tb e)) = Inr kept
            \<longrightarrow> length kept = length (dropWhile (\<lambda>f. \<not> is_snippet_frame f) (exn_tb e))
              \<and> map lineno kept = map lineno (dropWhile (\<lambda>f. \<not> is_snippet_frame f) (exn_tb e))
              \<and> map name kept = map name (dropWhile (\<lambda>f. \<not> is_snippet_frame f) (exn_tb e))
              \<and> map line kept = map line (dropWhile (\<lambda>f. \<not> is_snippet_frame f) (exn_tb e)))"
proof -
  let ?tb = "exn_tb e"
  let ?kept = "dropWhile (\<lambda>f. \<not> is_snippet_frame f) ?tb"
  have s: "stripped_tb ?tb = ?kept"
    using assms by (rule stripped_tb_match)
  have ne: "?kept \<noteq> []"
    using assms by (auto simp: list_ex_iff)
  have hd: "is_snippet_frame (hd ?kept)"
    using hd_dropWhile [OF ne] by simp
  have pre: "list_all (\<lambda>f. \<not> is_snippet_frame f)
               (takeWhile (\<lambda>f. \<not> is_snippet_frame f) ?tb)"
    by (auto simp: list_all_iff dest: set_takeWhileD)
  have msg: "format_exception_with_traceback cwd format_list e =
           (case relativize cwd ?kept of
              Inl x \<Rightarrow> Inl x
            | Inr kept \<Rightarrow>
                (case exn_str e of
                   Inl x \<Rightarrow> Inl x
                 | Inr msg \<Rightarrow>
                     Inr (py ''Traceback (most recent call last):'' @ [10]
                          @ concat (format_list kept) @ exn_type e
                          @ (if msg \<noteq> [] then py '': '' @ msg else msg))))"
    by (simp add: format_exception_with_traceback_def create_traceback_message_def s Let_def
        split: sum.splits)
  have fields: "\<forall>kept. relativize cwd ?kept = Inr kept
            \<longrightarrow> length kept = length ?kept
              \<and> map lineno kept = map lineno ?kept
              \<and> map name kept = map name ?kept
              \<and> map line kept = map line ?kept"
    by (blast dest: relativize_fields)
  from s ne hd pre msg fields show ?thesis by simp
qed

theorem snippet_frame_boundary_witness:
  "list_ex is_snippet_frame (exn_tb helper_error)
   \<and> exn_tb helper_error = [frame_execute_code, frame_meval, frame_snippet, frame_helper]
   \<and> stripped_tb (exn_tb helper_error) = [frame_snippet, frame_helper]
   \<and> relativize (py ''/srv/bot'') [frame_snippet, frame_helper]
       = Inr [frame_snippet, frame_helper\<lparr>filename := py ''helpers.py''\<rparr>]
   \<and> format_exception_with_traceback (py ''/srv/bot'') sample_format_list helper_error
       = Inr (py ''Traceback (most recent call last):'' @ [10]
              @ py ''  File <string>, in tmp'' @ [10]
              @ py ''  File helpers.py, in check'' @ [10]
              @ py ''ValueError: bad'')"
proof -
  have h: "list_ex is_snippet_frame (exn_tb helper_error)"
    by (simp add: helper_error_def frames_eval)
  have tb: "exn_tb helper_error = [frame_execute_code, frame_meval, frame_snippet, frame_helper]"
    by (simp add: helper_error_def)
  have dw: "dropWhile (\<lambda>f. \<not> is_snippet_frame f) (exn_tb helper_error)
              = [frame_snippet, frame_helper]"
    by (simp add: helper_error_def frames_eval)
  have r: "relpath (py ''/srv/bot'') (py ''/srv/bot/helpers.py'') (py ''/srv/bot'')
             = Inr (py ''helpers.py'')"
    by (simp add: relpath_def abspath_def isabs_def startswith_def
      normpath_def norm_step_def join_sep_def path_join2_def endswith_def Let_def)
  have c: "\<not> contains (filename frame_snippet) (py ''/srv/bot'')"
       "contains (filename frame_helper) (py ''/srv/bot'')"
       "filename frame_helper = py ''/srv/bot/helpers.py''"
    by (simp_all add: frame_helper_def frame_snippet_def startswith_def)
  have rel: "relativize (py ''/srv/bot'') [frame_snippet, frame_helper]
       = Inr [frame_snippet, frame_helper\<lparr>filename := py ''helpers.py''\<rparr>]"
    using r c by simp
  note b = snippet_frame_boundary [OF h, of "py ''/srv/bot''" sample_format_list]
  from b have st: "stripped_tb (exn_tb helper_error) = [frame_snippet, frame_helper]"
    unfolding dw by (rule conjunct1)
  have m: "format_exception_with_traceback (py ''/srv/bot'') sample_format_list helper_error
       = Inr (py ''Traceback (most recent call last):'' @ [10]
              @ py ''  File <string>, in tmp'' @ [10]
              @ py ''  File helpers.py, in check'' @ [10]
              @ py ''ValueError: bad'')"
    using b unfolding dw rel
    by (simp add: helper_error_def sample_format_list_def frame_snippet_def frame_helper_def)
  from h tb st rel m show ?thesis by (intro conjI)
qed

text \<open>
  C1: the claim is that a traceback with no frame named \<^verbatim>\<open><string>\<close> or ending with
  \<^verbatim>\<open>ast.py\<close> is kept whole, the index being 0.  The program's default index is
  \<open>-1\<close>: for the script \<^verbatim>\<open>break\<close>, which \<^verbatim>\<open>compile\<close> rejects inside \<^verbatim>\<open>meval\<close>
  before any of it runs, the traceback has the frames of \<^verbatim>\<open>execute_code\<close> and of
  \<^verbatim>\<open>meval\<close>, and the sanitizer keeps the last one only.
\<close>

theorem no_snippet_frame_keeps_last_frame_only:
  "first_snip_idx [frame_execute_code, frame_meval] = - 1
   \<and> stripped_tb [frame_execute_code, frame_meval] = [frame_meval]"
  by (simp add: stripped_tb_def first_snip_idx_def slice_from_def frames_eval)

section \<open>Which file names the sanitizer rewrites\<close>

lemma startswith_contains: "startswith s p \<Longrightarrow> contains s p"
  by (cases s) (simp_all add: startswith_def)

lemma contains_nonempty: "contains s p \<Longrightarrow> p \<noteq> [] \<Longrightarrow> s \<noteq> []"
  by (cases s) simp_all

lemma startswith_append: "startswith s (p @ q) \<Longrightarrow> startswith s p"
proof -
  assume "startswith s (p @ q)"
  then have "take (length p + length q) s = p @ q" by (simp add: startswith_def)
  then have "take (length p) (take (length p + length q) s) = take (length p) (p @ q)"
    by simp
  then show ?thesis by (simp add: startswith_def min_def)
qed

lemma lies_under_contains: "lies_under path dir \<Longrightarrow> contains path dir"
  unfolding lies_under_def by (blast intro: startswith_contains startswith_append)

lemma relpath_nonempty: "path \<noteq> [] \<Longrightarrow> \<exists>p. relpath cwd path start = Inr p"
  by (simp add: relpath_def Let_def split: list.splits)

text \<open>
  C8, as the program has it: the test is \<^verbatim>\<open>base_directory in frame.filename\<close>, so a
  frame's file name is replaced by \<^verbatim>\<open>os.path.relpath(filename, cwd)\<close> if and only if
  the working directory's path occurs somewhere in the file name; every other frame, and
  every other field of a rewritten frame, is left as it was.  A path that lies under the
  working directory contains it, so those frames are among the rewritten ones.  (The
  working directory's path is never empty.)
\<close>

theorem relativize_by_substring:
  assumes "cwd \<noteq> []"
  shows "\<exists>fs'. relativize cwd fs = Inr fs' \<and> length fs' = length fs
         \<and> (\<forall>i<length fs.
               if contains (filename (fs ! i)) cwd
               then relpath cwd (filename (fs ! i)) cwd = Inr (filename (fs' ! i))
                    \<and> fs' ! i = (fs ! i)\<lparr>filename := filename (fs' ! i)\<rparr>
               else fs' ! i = fs ! i)
         \<and> (\<forall>i<length fs. lies_under (filename (fs ! i)) cwd
               \<longrightarrow> contains (filename (fs ! i)) cwd)"
proof (induction fs)
  case Nil
  show ?case by simp
next
  case (Cons f fs)
  then obtain fs' where ih: "relativize cwd fs = Inr fs'" "length fs' = length fs"
    "\<forall>i<length fs.
               if contains (filename (fs ! i)) cwd
               then relpath cwd (filename (fs ! i)) cwd = Inr (filename (fs' ! i))
                    \<and> fs' ! i = (fs ! i)\<lparr>filename := filename (fs' ! i)\<rparr>
               else fs' ! i = fs ! i" by blast
  have under: "\<forall>i<length (f # fs). lies_under (filename ((f # fs) ! i)) cwd
               \<longrightarrow> contains (filename ((f # fs) ! i)) cwd"
    by (blast intro: lies_under_contains)
  show ?case
  proof (cases "contains (filename f) cwd")
    case True
    then have "filename f \<noteq> []" using assms by (rule contains_nonempty)
    then obtain p where p: "relpath cwd (filename f) cwd = Inr p"
      using relpath_nonempty by blast
    show ?thesis
      using True p ih under by (auto simp: nth_Cons split: nat.splits)
  next
    case False
    then show ?thesis
      using ih under by (auto simp: nth_Cons split: nat.splits)
  qed
qed

theorem relativize_by_substring_witness:
  "py ''/srv/bot'' \<noteq> []
   \<and> relativize (py ''/srv/bot'') [frame_execute_code, frame_snippet]
       = Inr [frame_execute_code\<lparr>filename := py ''main.py''\<rparr>, frame_snippet]"
proof -
  have h: "py ''/srv/bot'' \<noteq> []" by simp
  have r: "relpath (py ''/srv/bot'') (py ''/srv/bot/main.py'') (py ''/srv/bot'')
             = Inr (py ''main.py'')"
    by (simp add: relpath_def abspath_def isabs_def startswith_def
      normpath_def norm_step_def join_sep_def path_join2_def endswith_def Let_def)
  have c: "contains (filename frame_execute_code) (py ''/srv/bot'')"
       "\<not> contains (filename frame_snippet) (py ''/srv/bot'')"
    by (simp_all add: frame_execute_code_def frame_snippet_def startswith_def)
  have f: "filename frame_execute_code = py ''/srv/bot/main.py''"
    by (simp add: frame_execute_code_def)
  show ?thesis
    using relativize_by_substring [OF h, of "[frame_execute_code, frame_snippet]"] r c f
    by simp
qed

text \<open>
  C8 as the claim states it fails: with the working directory \<^verbatim>\<open>/srv/bot\<close>, the
  frame of the library installed in \<^verbatim>\<open>/srv/bot-env\<close> does not lie under the working
  directory, and yet its file name is rewritten, to a path that climbs out of it.
\<close>

theorem frame_outside_cwd_rewritten:
  "\<not> lies_under (filename frame_meval) (py ''/srv/bot'')
   \<and> relativize (py ''/srv/bot'') [frame_meval] =
       Inr [frame_meval\<lparr>filename := py ''../bot-env/lib/meval/__init__.py''\<rparr>]"
  by (simp add: lies_under_def frame_meval_def startswith_def relpath_def abspath_def isabs_def
      normpath_def norm_step_def join_sep_def path_join2_def endswith_def Let_def)

section \<open>The capture buffer\<close>

lemma captured_buffer:
  "output_buffer (foldl print_output st ps)
       = output_buffer st
         @ concat (map written
             (filter (\<lambda>c. file_kw c = None \<or> file_kw c = Some Buffer) ps))"
  by (induction ps arbitrary: st)
     (auto simp: print_output_def print_to_def split: pyfile.splits)





section \<open>The command without a script\<close>

text \<open>
  C7: when \<^verbatim>\<open>/run\<close> comes with no script text (\<^verbatim>\<open>context.args\<close> is empty), the
  handler sends the usage reminder and returns; that reply is its only action: the
  script interpreter is not called, no placeholder message is sent, and nothing else in
  the world changes, whatever the interpreter would have done.
\<close>

theorem no_script_text_usage_only:
  assumes "length args < 1"
  shows "handle_eval cwd format_list file_id meval args text st
           = (act (Reply_text usage) st, Returned ())"
  using assms by (simp add: handle_eval_def)

theorem no_script_text_usage_only_witness:
  "length ([] :: pystr list) < 1
   \<and> handle_eval (py ''/srv/bot'') sample_format_list (py ''1A2B3C4D'') (script [] (Return None))
        [] (py ''/run'') fresh = (act (Reply_text usage) fresh, Returned ())
   \<and> actions (fst (handle_eval (py ''/srv/bot'') sample_format_list (py ''1A2B3C4D'')
        (script [] (Return None)) [] (py ''/run'') fresh)) = [Reply_text usage]"
proof -
  have h: "length ([] :: pystr list) < 1" by simp
  show ?thesis
    using no_script_text_usage_only [OF h, of "py ''/srv/bot''" sample_format_list
        "py ''1A2B3C4D''" "script [] (Return None)" "py ''/run''" fresh]
    by (simp add: act_def fresh_def)
qed

section \<open>Trailing white space\<close>







section \<open>What the Evaluator returns\<close>

lemma relativize_total: "cwd \<noteq> [] \<Longrightarrow> \<exists>fs'. relativize cwd fs = Inr fs'"
proof (induction fs)
  case Nil
  show ?case by simp
next
  case (Cons f fs)
  then obtain fs' where ih: "relativize cwd fs = Inr fs'" by blast
  show ?case
  proof (cases "contains (filename f) cwd")
    case True
    with Cons.prems have "filename f \<noteq> []" by (blast dest: contains_nonempty)
    then obtain p where "relpath cwd (filename f) cwd = Inr p"
      using relpath_nonempty by blast
    with True ih show ?thesis by simp
  next
    case False
    with ih show ?thesis by simp
  qed
qed

lemma create_traceback_message_returns:
  assumes "cwd \<noteq> []" and "exn_str e = Inr msg"
  shows "\<exists>tb. create_traceback_message cwd format_list e frames = Inr tb"
proof -
  obtain fs' where
    "relativize cwd (case frames of None \<Rightarrow> exn_tb e | Some fs \<Rightarrow> fs) = Inr fs'"
    using relativize_total [OF assms(1)] by blast
  then show ?thesis
    using assms(2) by (simp add: create_traceback_message_def Let_def)
qed

lemma zero_division_traceback:
  "format_exception_with_traceback (py ''/srv/bot'') sample_format_list zero_division
     = Inr (py ''Traceback (most recent call last):'' @ [10]
            @ py ''  File <string>, in tmp'' @ [10]
            @ py ''ZeroDivisionError: division by zero'')"
  by (simp add: format_exception_with_traceback_def create_traceback_message_def zero_division_def
      snippet_tb_def stripped_tb_def first_snip_idx_def slice_from_def frames_eval
      sample_format_list_def Let_def)
     (simp add: frame_snippet_def startswith_def)

text \<open>
  C3, as the program has it: \<^verbatim>\<open>except Exception\<close> catches the exceptions whose class
  derives from \<^verbatim>\<open>Exception\<close>.  Every such exception that the script raises, and
  whose \<^verbatim>\<open>str\<close> returns, is caught in \<^verbatim>\<open>execute_code\<close> and turned into the
  error header and the sanitized traceback: \<^verbatim>\<open>execute_code\<close> returns and nothing is
  raised to the handler.  (The working directory's path is never empty.)
\<close>

theorem exceptions_of_class_Exception_caught:
  assumes "ending (meval command) = Raise e" and "is_Exception e"
    and "exn_str e = Inr msg" and "cwd \<noteq> []"
  shows "\<exists>tb. format_exception_with_traceback cwd format_list e = Inr tb
           \<and> snd (execute_code cwd format_list meval command st)
               = Returned (error_prefix, Some (Returned tb))"
proof -
  obtain tb where "format_exception_with_traceback cwd format_list e = Inr tb"
    unfolding format_exception_with_traceback_def
    using create_traceback_message_returns [OF assms(4) assms(3)] by blast
  then show ?thesis
    using assms(1,2) by (simp add: execute_code_def Let_def)
qed

theorem exceptions_of_class_Exception_caught_witness:
  "ending (script [] (Raise zero_division) (py ''1/0'')) = Raise zero_division
   \<and> is_Exception zero_division
   \<and> exn_str zero_division = Inr (py ''division by zero'')
   \<and> py ''/srv/bot'' \<noteq> []
   \<and> snd (execute_code (py ''/srv/bot'') sample_format_list (script [] (Raise zero_division))
             (py ''1/0'') fresh)
       = Returned (error_prefix,
           Some (Returned (py ''Traceback (most recent call last):'' @ [10]
                 @ py ''  File <string>, in tmp'' @ [10]
                 @ py ''ZeroDivisionError: division by zero'')))"
proof -
  have h1: "ending (script [] (Raise zero_division) (py ''1/0'')) = Raise zero_division"
    by (simp add: script_def)
  have h2: "is_Exception zero_division" by (simp add: zero_division_def)
  have h3: "exn_str zero_division = Inr (py ''division by zero'')"
    by (simp add: zero_division_def)
  have h4: "py ''/srv/bot'' \<noteq> []" by simp
  show ?thesis
    using exceptions_of_class_Exception_caught [of "script [] (Raise zero_division)"
        "py ''1/0''" zero_division "py ''division by zero''" "py ''/srv/bot''"
        sample_format_list fresh, OF h1 h2 h3 h4]
      zero_division_traceback h1 h2 h3
    by auto
qed

text \<open>
  C3 as the claim states it fails: \<^verbatim>\<open>KeyboardInterrupt\<close> derives from
  \<^verbatim>\<open>BaseException\<close> only, so when the script raises it, it leaves
  \<^verbatim>\<open>execute_code\<close> and then the handler.
\<close>

theorem keyboard_interrupt_escapes:
  "execute_code (py ''/srv/bot'') sample_format_list (script [] (Raise keyboard_interrupt))
       (py ''raise KeyboardInterrupt'') fresh
     = (act (Meval (py ''raise KeyboardInterrupt'')) fresh, Propagated keyboard_interrupt)
   \<and> snd (handle_eval (py ''/srv/bot'') sample_format_list (py ''1A2B3C4D'')
            (script [] (Raise keyboard_interrupt)) [py ''raise'', py ''KeyboardInterrupt'']
            (py ''/run raise KeyboardInterrupt'') fresh) = Propagated keyboard_interrupt"
  by (simp add: execute_code_def script_def keyboard_interrupt_def handle_eval_def
      command_of_def isspace_def Let_def)

text \<open>
  C5, as the program has it: \<^verbatim>\<open>execute_code\<close> ends in exactly one way for a run of
  a script.  When the script returns, the result is the empty header with the script's
  value (Completed); when it raises an exception of a class deriving from
  \<^verbatim>\<open>Exception\<close> whose \<^verbatim>\<open>str\<close> returns, the result is the error header with the
  sanitized traceback string as its payload (Failed); the two headers differ, so a
  result is never both.  A result is missing in two cases: an exception that derives
  from \<^verbatim>\<open>BaseException\<close> only leaves \<^verbatim>\<open>execute_code\<close>, and a script that never
  ends keeps it waiting.  The captured text is in the buffer: the texts of the
  \<^verbatim>\<open>print\<close> calls that gave no \<^verbatim>\<open>file\<close> or gave the buffer.  After
  \<^verbatim>\<open>execute_code\<close> has returned, the handler appends the payload, when it is not
  \<^verbatim>\<open>None\<close>, as \<^verbatim>\<open>str\<close> renders it, and a newline, directly after the captured
  text; when \<^verbatim>\<open>str\<close> of the value raises, the exception leaves the handler.
\<close>

theorem execute_code_outcome:
  assumes "cwd \<noteq> []"
  shows "(\<forall>v. ending (meval command) = Return v \<longrightarrow>
            snd (execute_code cwd format_list meval command st) = Returned ([], v))
       \<and> (\<forall>e msg. ending (meval command) = Raise e \<and> is_Exception e \<and> exn_str e = Inr msg \<longrightarrow>
            (\<exists>tb. format_exception_with_traceback cwd format_list e = Inr tb
               \<and> snd (execute_code cwd format_list meval command st)
                   = Returned (error_prefix, Some (Returned tb))))
       \<and> (\<forall>e. ending (meval command) = Raise e \<and> \<not> is_Exception e \<longrightarrow>
            snd (execute_code cwd format_list meval command st) = Propagated e)
       \<and> (ending (meval command) = Never \<longrightarrow>
            snd (execute_code cwd format_list meval command st) = Hangs)
       \<and> error_prefix \<noteq> []
       \<and> output_buffer (fst (execute_code cwd format_list meval command st))
           = output_buffer st
             @ concat (map written
                 (filter (\<lambda>c. file_kw c = None \<or> file_kw c = Some Buffer)
                    (prints (meval command))))
       \<and> print_result None st' = (st', Returned ())
       \<and> (\<forall>v. print_result (Some (Returned v)) st'
              = (st'\<lparr>output_buffer := output_buffer st' @ v @ [10]\<rparr>, Returned ()))
       \<and> (\<forall>x. print_result (Some (Propagated x)) st' = (st', Propagated x))
       \<and> (\<forall>x. 0 < length args \<and> command_of text = Inr command
              \<and> ending (meval command) = Return (Some (Propagated x)) \<longrightarrow>
            snd (handle_eval cwd format_list file_id meval args text st) = Propagated x)"
proof -
  have caught: "\<exists>tb. format_exception_with_traceback cwd format_list e = Inr tb
               \<and> snd (execute_code cwd format_list meval command st)
                   = Returned (error_prefix, Some (Returned tb))"
    if r: "ending (meval command) = Raise e" and i: "is_Exception e"
      and m: "exn_str e = Inr msg"
    for e msg
  proof -
    obtain tb where "format_exception_with_traceback cwd format_list e = Inr tb"
      unfolding format_exception_with_traceback_def
      using create_traceback_message_returns [OF assms m] by blast
    then show ?thesis using r i by (simp add: execute_code_def Let_def)
  qed
  have buf: "output_buffer (fst (execute_code cwd format_list meval command st))
           = output_buffer st
             @ concat (map written
                 (filter (\<lambda>c. file_kw c = None \<or> file_kw c = Some Buffer)
                    (prints (meval command))))"
    by (simp add: execute_code_def Let_def captured_buffer act_def)
  have pr: "print_result None st' = (st', Returned ())
       \<and> (\<forall>v. print_result (Some (Returned v)) st'
              = (st'\<lparr>output_buffer := output_buffer st' @ v @ [10]\<rparr>, Returned ()))
       \<and> (\<forall>x. print_result (Some (Propagated x)) st' = (st', Propagated x))"
    by (simp add: print_result_def print_to_def)
  have esc: "snd (handle_eval cwd format_list file_id meval args text st) = Propagated x"
    if "0 < length args" and "command_of text = Inr command"
      and "ending (meval command) = Return (Some (Propagated x))"
    for x
    using that by (simp add: handle_eval_def execute_code_def print_result_def Let_def)
  have rest: "(\<forall>v. ending (meval command) = Return v \<longrightarrow>
            snd (execute_code cwd format_list meval command st) = Returned ([], v))
       \<and> (\<forall>e. ending (meval command) = Raise e \<and> \<not> is_Exception e \<longrightarrow>
            snd (execute_code cwd format_list meval command st) = Propagated e)
       \<and> (ending (meval command) = Never \<longrightarrow>
            snd (execute_code cwd format_list meval command st) = Hangs)
       \<and> error_prefix \<noteq> []"
    by (simp add: execute_code_def Let_def error_prefix_def)
  show ?thesis using caught buf pr esc rest by blast
qed

theorem execute_code_outcome_witness:
  "py ''/srv/bot'' \<noteq> []
   \<and> snd (execute_code (py ''/srv/bot'') sample_format_list prints_a_returns_5
            (py ''print(\"a\", end=\"\"); 5'') fresh) = Returned ([], Some (Returned (py ''5'')))
   \<and> output_buffer (fst (execute_code (py ''/srv/bot'') sample_format_list prints_a_returns_5
            (py ''print(\"a\", end=\"\"); 5'') fresh)) = py ''a''
   \<and> print_result (Some (Returned (py ''5''))) (fresh\<lparr>output_buffer := py ''a''\<rparr>)
       = (fresh\<lparr>output_buffer := py ''a5'' @ [10]\<rparr>, Returned ())
   \<and> snd (execute_code (py ''/srv/bot'') sample_format_list (script [] (Raise zero_division))
            (py ''1/0'') fresh)
       = Returned (error_prefix,
           Some (Returned (py ''Traceback (most recent call last):'' @ [10]
                 @ py ''  File <string>, in tmp'' @ [10]
                 @ py ''ZeroDivisionError: division by zero'')))
   \<and> snd (handle_eval (py ''/srv/bot'') sample_format_list (py ''1A2B3C4D'')
            (script [] (Return (Some (Propagated unprintable)))) [py ''Bad()'']
            (py ''/run Bad()'') fresh) = Propagated unprintable"
proof -
  have h: "py ''/srv/bot'' \<noteq> []" by simp
  have z: "is_Exception zero_division \<and> exn_str zero_division = Inr (py ''division by zero'')"
    by (simp add: zero_division_def)
  have c: "command_of (py ''/run Bad()'') = Inr (py ''Bad()'')"
    by (simp add: command_of_def isspace_def)
  note a = execute_code_outcome [OF h, of prints_a_returns_5 "py ''print(\"a\", end=\"\"); 5''"
          sample_format_list fresh "fresh\<lparr>output_buffer := py ''a''\<rparr>" "[]" "[]"
          "py ''1A2B3C4D''"]
  note b = execute_code_outcome [OF h, of "script [] (Raise zero_division)" "py ''1/0''"
          sample_format_list fresh fresh "[]" "[]" "py ''1A2B3C4D''"]
  note d = execute_code_outcome [OF h, of "script [] (Return (Some (Propagated unprintable)))"
          "py ''Bad()''" sample_format_list fresh fresh "[py ''Bad()'']" "py ''/run Bad()''"
          "py ''1A2B3C4D''"]
  have 1: "snd (execute_code (py ''/srv/bot'') sample_format_list prints_a_returns_5
            (py ''print(\"a\", end=\"\"); 5'') fresh) = Returned ([], Some (Returned (py ''5'')))"
    using a by (simp add: prints_a_returns_5_def script_def)
  have 2: "output_buffer (fst (execute_code (py ''/srv/bot'') sample_format_list
            prints_a_returns_5 (py ''print(\"a\", end=\"\"); 5'') fresh)) = py ''a''"
    using a by (simp add: prints_a_returns_5_def script_def fresh_def)
  have 3: "print_result (Some (Returned (py ''5''))) (fresh\<lparr>output_buffer := py ''a''\<rparr>)
       = (fresh\<lparr>output_buffer := py ''a5'' @ [10]\<rparr>, Returned ())"
    using a by (simp add: fresh_def)
  have 4: "snd (execute_code (py ''/srv/bot'') sample_format_list
            (script [] (Raise zero_division)) (py ''1/0'') fresh)
       = Returned (error_prefix,
           Some (Returned (py ''Traceback (most recent call last):'' @ [10]
                 @ py ''  File <string>, in tmp'' @ [10]
                 @ py ''ZeroDivisionError: division by zero'')))"
    using b zero_division_traceback z by (auto simp: script_def)
  have 5: "snd (handle_eval (py ''/srv/bot'') sample_format_list (py ''1A2B3C4D'')
            (script [] (Return (Some (Propagated unprintable)))) [py ''Bad()'']
            (py ''/run Bad()'') fresh) = Propagated unprintable"
    using d c by (simp add: script_def)
  from h 1 2 3 4 5 show ?thesis by (intro conjI)
qed

text \<open>
  C5 as the claim states it fails: the script \<^verbatim>\<open>import sys; sys.exit()\<close> is not
  empty, and \<^verbatim>\<open>execute_code\<close> returns neither outcome for it: \<^verbatim>\<open>SystemExit\<close> is
  raised through it.
\<close>

theorem system_exit_gives_no_outcome:
  "snd (execute_code (py ''/srv/bot'') sample_format_list (script [] (Raise system_exit))
       (py ''import sys; sys.exit()'') fresh) = Propagated system_exit"
  by (simp add: execute_code_def script_def system_exit_def Let_def)

section \<open>Inline reply or attachment\<close>








end
